theory Spec2Isabelle
  imports Complex_Main "HOL-Library.Signed_Division" "HOL-Library.Log_Nat"
begin

section \<open>King-safety evaluation of the chess engine (main.cpp)\<close>

text \<open>
  A shallow embedding of \<^verbatim>\<open>main.cpp\<close> and of the types of \<^verbatim>\<open>exptypes.h\<close>.

  \<^item> \<^verbatim>\<open>enum class square : int\<close> is its underlying \<open>int\<close>: a8 is 0, h8 is 7, a1 is 56
    and h1 is 63. The enumerators cover 0..63, though the type can hold any \<open>int\<close>.
  \<^item> C++ \<^verbatim>\<open>/\<close> and \<^verbatim>\<open>%\<close> on \<^verbatim>\<open>int\<close> truncate towards zero: they are \<open>sdiv\<close> and
    \<open>smod\<close>, not HOL's \<open>div\<close> and \<open>mod\<close>. No intermediate value of the program leaves the
    32-bit range, so \<open>int\<close> stands for \<^verbatim>\<open>int\<close>.
  \<^item> \<^verbatim>\<open>std::optional\<close> is \<open>option\<close>; \<^verbatim>\<open>.value()\<close> on an empty optional throws
    \<^verbatim>\<open>std::bad_optional_access\<close>, which is the error \<open>BadOptionalAccess\<close>.
  \<^item> A \<^verbatim>\<open>double\<close> is its value, a \<open>real\<close>. The operations that round (reading a decimal
    literal, \<^verbatim>\<open>+\<close> and \<^verbatim>\<open>*\<close> on doubles) are not those of \<open>real\<close>: see the double arithmetic
    below.
\<close>

subsection \<open>Types of exptypes.h\<close>

type_synonym square = int

datatype pieceSymbol = PAWN | KNIGHT | BISHOP | ROOK | QUEEN | KING

datatype color = WHITE | BLACK

text \<open>The \<^verbatim>\<open>squ\<close> alias of main.cpp: an optional (square, piece, colour) triple.\<close>

type_synonym squ = "(square \<times> pieceSymbol \<times> color) option"

subsection \<open>Square geometry\<close>

fun getPieceValue :: "pieceSymbol \<Rightarrow> int" where
  "getPieceValue PAWN = 1"
| "getPieceValue BISHOP = 3"
| "getPieceValue KNIGHT = 3"
| "getPieceValue QUEEN = 9"
| "getPieceValue ROOK = 5"
| "getPieceValue KING = 200"

definition getRank :: "square \<Rightarrow> int" where
  "getRank sq = sq sdiv 8"

definition getFile :: "square \<Rightarrow> int" where
  "getFile sq = sq smod 8"

definition createSquare :: "int \<Rightarrow> int \<Rightarrow> square option" where
  "createSquare rank file =
     (if rank \<ge> 0 \<and> rank < 8 \<and> file \<ge> 0 \<and> file < 8 then Some (rank * 8 + file) else None)"

definition offsets :: "(int \<times> int) list" where
  "offsets = [(-1, -1), (-1, 0), (-1, 1), (0, -1), (0, 1), (1, -1), (1, 0), (1, 1)]"

text \<open>The loop of \<^verbatim>\<open>getSurroundingSquares\<close> over the offsets, \<open>surrounding\<close> being the
  vector built so far.\<close>

fun surroundingLoop :: "int \<Rightarrow> int \<Rightarrow> (int \<times> int) list \<Rightarrow> square list \<Rightarrow> square list" where
  "surroundingLoop rank file [] surrounding = surrounding"
| "surroundingLoop rank file (offset # rest) surrounding =
     (case createSquare (rank + fst offset) (file + snd offset) of
        Some neighbor \<Rightarrow> surroundingLoop rank file rest (surrounding @ [neighbor])
      | None \<Rightarrow> surroundingLoop rank file rest surrounding)"

definition getSurroundingSquares :: "square \<Rightarrow> square list" where
  "getSurroundingSquares sq = surroundingLoop (getRank sq) (getFile sq) offsets []"

text \<open>Where a square lies, in the words of the specification: a corner, the rim, the interior.\<close>

definition onEdgeRank :: "square \<Rightarrow> bool" where
  "onEdgeRank sq = (getRank sq = 0 \<or> getRank sq = 7)"

definition onEdgeFile :: "square \<Rightarrow> bool" where
  "onEdgeFile sq = (getFile sq = 0 \<or> getFile sq = 7)"

definition neighborCount :: "square \<Rightarrow> nat" where
  "neighborCount sq =
     (if onEdgeRank sq \<and> onEdgeFile sq then 3
      else if onEdgeRank sq \<or> onEdgeFile sq then 5
      else 8)"

definition adjacent :: "square \<Rightarrow> square \<Rightarrow> bool" where
  "adjacent sq n =
     (\<bar>getRank n - getRank sq\<bar> \<le> 1 \<and> \<bar>getFile n - getFile sq\<bar> \<le> 1 \<and> n \<noteq> sq)"

subsection \<open>Errors\<close>

text \<open>
  What can stop an evaluation: \<^verbatim>\<open>.value()\<close> on an empty optional
  (\<^verbatim>\<open>std::bad_optional_access\<close>), \<^verbatim>\<open>operator[]\<close> of a string past its terminator
  (undefined in C++, kept apart here), and an exception of a function whose body is not
  part of main.cpp.
\<close>

datatype error = BadOptionalAccess | StringIndex | ExternalFailure

definition bindE :: "error + 'a \<Rightarrow> ('a \<Rightarrow> error + 'b) \<Rightarrow> error + 'b" where
  "bindE m f = (case m of Inl e \<Rightarrow> Inl e | Inr x \<Rightarrow> f x)"

subsection \<open>The rules engine (chesscpp.h)\<close>

record move =
  move_color :: color
  move_from :: square
  move_to :: square
  move_piece :: "pieceSymbol option"
  move_captured :: "pieceSymbol option"
  move_promotion :: "pieceSymbol option"
  move_flags :: string
  move_san :: string
  move_lan :: string
  move_before :: string
  move_after :: string

text \<open>
  \<^verbatim>\<open>class Chess\<close> is declared in chesscpp.h and implemented outside the sources. A game is
  the answers of the member functions main.cpp calls, for one fixed position: they are reads
  that return.
\<close>

record Chess =
  turn :: color
  board :: "squ list list"
  isAttacked :: "square \<Rightarrow> color \<Rightarrow> bool"
  getAttackingPieces :: "color \<Rightarrow> square \<Rightarrow> pieceSymbol option list"
  moves :: "string option \<Rightarrow> pieceSymbol option \<Rightarrow> move list"

text \<open>
  The free functions main.cpp calls without defining them: the two notation converters of
  chesscpp.h, and the heuristics \<^verbatim>\<open>evaluatePositioning\<close> and \<^verbatim>\<open>evaluateOpenFiles\<close>, which
  \<^verbatim>\<open>evaluateKingSafety\<close> calls and no file defines (\<^verbatim>\<open>evaluateKingPositioning\<close> has an
  unfinished body and no caller). They are parameters; each may throw.
\<close>

record externals =
  squareToString :: "square \<Rightarrow> error + string"
  stringToSquare :: "string \<Rightarrow> error + square"
  evaluatePositioning :: "Chess \<Rightarrow> square \<Rightarrow> bool \<Rightarrow> error + real"
  evaluateOpenFiles :: "Chess \<Rightarrow> square \<Rightarrow> bool \<Rightarrow> error + real"

subsection \<open>Piece lookup\<close>

fun pieceInRow :: "squ list \<Rightarrow> square \<Rightarrow> (pieceSymbol \<times> color) option" where
  "pieceInRow [] sq = None"
| "pieceInRow (p # row) sq =
     (case p of
        None \<Rightarrow> pieceInRow row sq
      | Some (s, kind, c) \<Rightarrow> if s = sq then Some (kind, c) else pieceInRow row sq)"

fun pieceInRows :: "squ list list \<Rightarrow> square \<Rightarrow> (pieceSymbol \<times> color) option" where
  "pieceInRows [] sq = None"
| "pieceInRows (row # rows) sq =
     (case pieceInRow row sq of Some found \<Rightarrow> Some found | None \<Rightarrow> pieceInRows rows sq)"

definition pieceOnSquare :: "Chess \<Rightarrow> square \<Rightarrow> (pieceSymbol \<times> color) option" where
  "pieceOnSquare game sq = pieceInRows (board game) sq"

subsection \<open>Strings of the standard library\<close>

text \<open>\<^verbatim>\<open>std::to_string(int)\<close>: the decimal digits, after a minus sign for a negative value.\<close>

definition digitChar :: "nat \<Rightarrow> char" where
  "digitChar d = ''0123456789'' ! d"

function decimal :: "nat \<Rightarrow> string" where
  "decimal n = (if n < 10 then [digitChar n] else decimal (n div 10) @ [digitChar (n mod 10)])"
  by pat_completeness auto
termination
  by (relation "measure id") auto

definition to_string :: "int \<Rightarrow> string" where
  "to_string i = (if i < 0 then CHR ''-'' # decimal (nat (- i)) else decimal (nat i))"

text \<open>
  \<^verbatim>\<open>s[i]\<close> promoted to \<^verbatim>\<open>int\<close>: the character's code below the length, the terminator 0 at
  the length, undefined past it. The code is read as unsigned. Where plain \<^verbatim>\<open>char\<close> is
  signed, as with g++ on x86-64, a byte from 128 on reads 256 less; the names of the squares
  are ASCII, where the two readings agree.
\<close>

definition charAt :: "string \<Rightarrow> nat \<Rightarrow> error + int" where
  "charAt s i =
     (if i < length s then Inr (of_char (s ! i))
      else if i = length s then Inr 0
      else Inl StringIndex)"

subsection \<open>The heuristics\<close>

fun shieldLoop :: "Chess \<Rightarrow> square list \<Rightarrow> int \<Rightarrow> int" where
  "shieldLoop game [] shieldBonus = shieldBonus"
| "shieldLoop game (sq # sqs) shieldBonus =
     shieldLoop game sqs
       (if pieceOnSquare game sq = Some (PAWN, WHITE) then shieldBonus + 1 else shieldBonus)"

definition evaluatePawnShield :: "externals \<Rightarrow> Chess \<Rightarrow> square \<Rightarrow> bool \<Rightarrow> error + int" where
  "evaluatePawnShield ext game kingPos isWhite =
     (let direction = (if isWhite then 1 else - 1) in
      bindE (squareToString ext kingPos) (\<lambda>strKingPos.
      bindE (charAt strKingPos 1) (\<lambda>c1.
      bindE (charAt strKingPos 0) (\<lambda>c0.
      bindE (stringToSquare ext (to_string (c1 + direction) @ to_string (c0 - 1))) (\<lambda>s1.
      bindE (stringToSquare ext (to_string (c1 + direction) @ to_string c0)) (\<lambda>s2.
      bindE (stringToSquare ext (to_string (c1 + direction) @ to_string (c0 + 1))) (\<lambda>s3.
      Inr (shieldLoop game [s1, s2, s3] 0))))))))"

text \<open>The inner loop of \<^verbatim>\<open>evaluateEnemyAttacks\<close>, over the attackers of one square. The
  quotient \<^verbatim>\<open>getPieceValue(...) / 10\<close> is taken on \<^verbatim>\<open>int\<close> before it is added to the
  \<^verbatim>\<open>double\<close>.\<close>

fun attackersLoop ::
  "Chess \<Rightarrow> square \<Rightarrow> color \<Rightarrow> pieceSymbol option list \<Rightarrow> real \<Rightarrow> error + real" where
  "attackersLoop game sq opponentSide [] attackScore = Inr attackScore"
| "attackersLoop game sq opponentSide (attacker # rest) attackScore =
     (if isAttacked game sq opponentSide then
        (case attacker of
           None \<Rightarrow> Inl BadOptionalAccess
         | Some p \<Rightarrow>
             attackersLoop game sq opponentSide rest
               (attackScore + of_int (getPieceValue p sdiv 10)))
      else attackersLoop game sq opponentSide rest attackScore)"

fun safetyZoneLoop :: "Chess \<Rightarrow> color \<Rightarrow> square list \<Rightarrow> real \<Rightarrow> error + real" where
  "safetyZoneLoop game opponentSide [] attackScore = Inr attackScore"
| "safetyZoneLoop game opponentSide (sq # sqs) attackScore =
     (case getAttackingPieces game opponentSide sq of
        [] \<Rightarrow> safetyZoneLoop game opponentSide sqs attackScore
      | first # others \<Rightarrow>
          if first = None then safetyZoneLoop game opponentSide sqs attackScore
          else bindE (attackersLoop game sq opponentSide (first # others) attackScore)
                 (safetyZoneLoop game opponentSide sqs))"

definition evaluateEnemyAttacks :: "Chess \<Rightarrow> square \<Rightarrow> bool \<Rightarrow> error + real" where
  "evaluateEnemyAttacks game kingPos isWhite =
     (let safetyZone = getSurroundingSquares kingPos;
          opponentSide = (if isWhite then BLACK else WHITE)
      in safetyZoneLoop game opponentSide safetyZone 0)"

fun exposedLoop :: "Chess \<Rightarrow> color \<Rightarrow> color \<Rightarrow> square list \<Rightarrow> int \<Rightarrow> error + int" where
  "exposedLoop game currentColor opponentSide [] exposedPenalty = Inr exposedPenalty"
| "exposedLoop game currentColor opponentSide (sq # sqs) exposedPenalty =
     (case pieceOnSquare game sq of
        None \<Rightarrow> Inl BadOptionalAccess
      | Some found \<Rightarrow>
          (let isPieceOpponent = (snd found \<noteq> currentColor);
               isSquareAttacked = isAttacked game sq opponentSide
           in exposedLoop game currentColor opponentSide sqs
                (if isPieceOpponent \<or> isSquareAttacked then exposedPenalty + 1
                 else exposedPenalty)))"

definition evaluateExposedKing :: "Chess \<Rightarrow> square \<Rightarrow> bool \<Rightarrow> error + int" where
  "evaluateExposedKing game kingPos isWhite =
     (let squaresAroundKing = getSurroundingSquares kingPos;
          currentColor = (if isWhite then WHITE else BLACK);
          opponentSide = (if currentColor = WHITE then BLACK else WHITE)
      in exposedLoop game currentColor opponentSide squaresAroundKing 0)"

text \<open>The two arguments of \<^verbatim>\<open>game.moves\<close> are evaluated in an order C++ leaves open; when
  both throw, the model reports the converter's exception.\<close>

definition evaluateKingMobility :: "externals \<Rightarrow> Chess \<Rightarrow> square \<Rightarrow> error + int" where
  "evaluateKingMobility ext game kingPos =
     bindE (squareToString ext kingPos) (\<lambda>strKingPos.
       case pieceOnSquare game kingPos of
         None \<Rightarrow> Inl BadOptionalAccess
       | Some found \<Rightarrow> Inr (int (length (moves game (Some strKingPos) (Some (fst found))))))"

subsection \<open>Double arithmetic\<close>

text \<open>
  The weights of \<^verbatim>\<open>evaluateKingSafety\<close> are decimal literals, and its products and sums are
  taken on \<^verbatim>\<open>double\<close>: each of them rounds. The three rounding operations are parameters of
  the aggregator: \<open>dconst\<close> gives the double a decimal literal denotes, \<open>dadd\<close> and \<open>dmul\<close> the
  sum and the product as the machine delivers them. Results that are no numbers (an
  infinity after overflow, a NaN) and the sign of a zero are outside this reading. The
  conversion of an \<^verbatim>\<open>int\<close> to \<^verbatim>\<open>double\<close> is exact, and so are negation and the sums of
  \<^verbatim>\<open>evaluateEnemyAttacks\<close>, which add whole numbers far below \<open>2 ^ 53\<close>.
\<close>

record doubleArith =
  dconst :: "real \<Rightarrow> real"
  dadd :: "real \<Rightarrow> real \<Rightarrow> real"
  dmul :: "real \<Rightarrow> real \<Rightarrow> real"

text \<open>
  IEEE 754 binary64 with rounding to nearest, ties to even, the arithmetic of \<^verbatim>\<open>double\<close> on
  the usual platforms: 53 significant bits, exponents from -1022, subnormal numbers below.
  \<open>ilog2 x\<close> is the exponent \<open>e\<close> with \<open>2 ^ e \<le> x < 2 ^ (e + 1)\<close> of a positive \<open>x\<close>.
\<close>

definition pow2 :: "int \<Rightarrow> real" where
  "pow2 k = (if 0 \<le> k then 2 ^ nat k else 1 / 2 ^ nat (- k))"

definition ilog2 :: "real \<Rightarrow> int" where
  "ilog2 x =
     (if 1 \<le> x then int (floorlog 2 (nat \<lfloor>x\<rfloor>)) - 1
      else - int (floorlog 2 (nat (\<lceil>1 / x\<rceil> - 1))))"

definition round64 :: "real \<Rightarrow> real" where
  "round64 x =
     (if x = 0 then 0
      else
        (let e = max (ilog2 \<bar>x\<bar>) (- 1022);
             q = pow2 (e - 52);
             m = \<bar>x\<bar> / q;
             n = \<lfloor>m\<rfloor>;
             r = m - of_int n;
             k = (if r < 1 / 2 then n else if 1 / 2 < r then n + 1
                  else if even n then n else n + 1)
         in sgn x * of_int k * q))"

definition binary64 :: doubleArith where
  "binary64 =
     \<lparr> dconst = round64,
       dadd = (\<lambda>a b. round64 (a + b)),
       dmul = (\<lambda>a b. round64 (a * b)) \<rparr>"

subsection \<open>The aggregator\<close>

text \<open>The six weights: \<^verbatim>\<open>-0.5\<close> is the literal \<^verbatim>\<open>0.5\<close>, negated.\<close>

definition pawnShieldWeight :: "doubleArith \<Rightarrow> real" where
  "pawnShieldWeight fp = dconst fp 1.0"

definition exposedKingWeight :: "doubleArith \<Rightarrow> real" where
  "exposedKingWeight fp = - dconst fp 0.5"

definition enemyAttacksWeight :: "doubleArith \<Rightarrow> real" where
  "enemyAttacksWeight fp = - dconst fp 0.2"

definition kingPositioningWeight :: "doubleArith \<Rightarrow> real" where
  "kingPositioningWeight fp = - dconst fp 0.8"

definition openFilesWeight :: "doubleArith \<Rightarrow> real" where
  "openFilesWeight fp = - dconst fp 1.0"

definition mobilityWeight :: "doubleArith \<Rightarrow> real" where
  "mobilityWeight fp = dconst fp 0.1"

text \<open>
  The search for the king of the side to move. The \<^verbatim>\<open>break\<close> leaves the inner loop only:
  within a row the first king of that side is taken, and a later row with such a king
  overwrites \<open>kingPosition\<close>.
\<close>

fun kingInRow :: "squ list \<Rightarrow> bool \<Rightarrow> square option" where
  "kingInRow [] isWhite = None"
| "kingInRow (p # row) isWhite =
     (case p of
        None \<Rightarrow> kingInRow row isWhite
      | Some (s, kind, c) \<Rightarrow>
          if kind \<noteq> KING then kingInRow row isWhite
          else if c = WHITE \<and> isWhite then Some s
          else if c = BLACK \<and> \<not> isWhite then Some s
          else kingInRow row isWhite)"

fun kingPositionLoop :: "squ list list \<Rightarrow> bool \<Rightarrow> square \<Rightarrow> square" where
  "kingPositionLoop [] isWhite kingPosition = kingPosition"
| "kingPositionLoop (row # rows) isWhite kingPosition =
     kingPositionLoop rows isWhite
       (case kingInRow row isWhite of Some s \<Rightarrow> s | None \<Rightarrow> kingPosition)"

text \<open>
  Lines 146 to 155 of main.cpp: \<open>safetyScore\<close> starts at 0, and each of the six statements
  calls one heuristic at the king square and adds its weighted result. An exception of a
  heuristic ends the evaluation: the statements after it are not run.
\<close>

definition safetyScore ::
  "doubleArith \<Rightarrow> externals \<Rightarrow> Chess \<Rightarrow> square \<Rightarrow> bool \<Rightarrow> error + real" where
  "safetyScore fp ext game kingPosition isWhite =
     (let score0 = 0 in
      bindE (evaluatePawnShield ext game kingPosition isWhite) (\<lambda>pawnShield.
      let score1 = dadd fp score0 (dmul fp (pawnShieldWeight fp) (of_int pawnShield)) in
      bindE (evaluateExposedKing game kingPosition isWhite) (\<lambda>exposedKing.
      let score2 = dadd fp score1 (dmul fp (exposedKingWeight fp) (of_int exposedKing)) in
      bindE (evaluateEnemyAttacks game kingPosition isWhite) (\<lambda>enemyAttacks.
      let score3 = dadd fp score2 (dmul fp (enemyAttacksWeight fp) enemyAttacks) in
      bindE (evaluatePositioning ext game kingPosition isWhite) (\<lambda>kingPositioning.
      let score4 = dadd fp score3 (dmul fp (kingPositioningWeight fp) kingPositioning) in
      bindE (evaluateKingMobility ext game kingPosition) (\<lambda>mobility.
      let score5 = dadd fp score4 (dmul fp (mobilityWeight fp) (of_int mobility)) in
      bindE (evaluateOpenFiles ext game kingPosition isWhite) (\<lambda>openFiles.
      let score6 = dadd fp score5 (dmul fp (openFilesWeight fp) openFiles) in
      Inr score6)))))))"

text \<open>
  \<^verbatim>\<open>square kingPosition;\<close> is declared without an initial value and assigned only when the
  search finds a king. What the variable holds before the search is the argument
  \<open>kingPosition0\<close>: when no king of the side to move is on the board, the heuristics run on
  that value.
\<close>

definition evaluateKingSafety ::
  "doubleArith \<Rightarrow> externals \<Rightarrow> Chess \<Rightarrow> square \<Rightarrow> error + real" where
  "evaluateKingSafety fp ext game kingPosition0 =
     (let isWhite = (turn game = WHITE);
          kingPosition = kingPositionLoop (board game) isWhite kingPosition0
      in safetyScore fp ext game kingPosition isWhite)"

text \<open>The side to move has a king on the board.\<close>

definition hasKing :: "squ list list \<Rightarrow> bool \<Rightarrow> bool" where
  "hasKing rows isWhite = list_ex (\<lambda>row. kingInRow row isWhite \<noteq> None) rows"

subsection \<open>The heuristics as the specification words them\<close>

text \<open>
  Three definitions that follow the specification, not main.cpp, to be compared with the
  code above. The pawn shield: the squares one rank towards the opponent at the files
  \<open>file - 1\<close>, \<open>file\<close>, \<open>file + 1\<close> that are on the board, counted when a pawn of the evaluated
  side stands there. Rank 8 is \<open>getRank = 0\<close>, so towards the opponent is \<open>getRank - 1\<close> for
  White and \<open>getRank + 1\<close> for Black.
\<close>

definition spec_pawnShield :: "Chess \<Rightarrow> square \<Rightarrow> bool \<Rightarrow> int" where
  "spec_pawnShield game kingPos isWhite =
     (let forward = getRank kingPos + (if isWhite then - 1 else 1);
          file = getFile kingPos;
          own = (if isWhite then WHITE else BLACK)
      in int (length (filter (\<lambda>sq. pieceOnSquare game sq = Some (PAWN, own))
           (List.map_filter (createSquare forward) [file - 1, file, file + 1]))))"

text \<open>The exposed-king count: the neighbour squares of the king that hold an enemy piece
  or are attacked by the opponent, each counted once.\<close>

definition spec_exposedSquare :: "Chess \<Rightarrow> bool \<Rightarrow> square \<Rightarrow> bool" where
  "spec_exposedSquare game isWhite sq =
     ((case pieceOnSquare game sq of
         None \<Rightarrow> False
       | Some found \<Rightarrow> snd found \<noteq> (if isWhite then WHITE else BLACK))
      \<or> isAttacked game sq (if isWhite then BLACK else WHITE))"

definition spec_exposedKing :: "Chess \<Rightarrow> square \<Rightarrow> bool \<Rightarrow> int" where
  "spec_exposedKing game kingPos isWhite =
     int (length (filter (spec_exposedSquare game isWhite) (getSurroundingSquares kingPos)))"

text \<open>The enemy attacks: over the neighbour squares the opponent attacks and over every
  attacker reported there, the piece value divided by 10 as a real number.\<close>

definition spec_enemyAttacks :: "Chess \<Rightarrow> square \<Rightarrow> bool \<Rightarrow> real" where
  "spec_enemyAttacks game kingPos isWhite =
     (let opponentSide = (if isWhite then BLACK else WHITE)
      in sum_list (map (\<lambda>sq.
           if isAttacked game sq opponentSide
           then sum_list (map (\<lambda>attacker. case attacker of
                                 None \<Rightarrow> 0
                               | Some p \<Rightarrow> real_of_int (getPieceValue p) / 10)
                  (getAttackingPieces game opponentSide sq))
           else 0) (getSurroundingSquares kingPos)))"

subsection \<open>Positions and converters used as examples\<close>

text \<open>The table \<^verbatim>\<open>SQUARES\<close> of exptypes.h.\<close>

definition SQUARES :: "string list" where
  "SQUARES = [
      ''a8'', ''b8'', ''c8'', ''d8'', ''e8'', ''f8'', ''g8'', ''h8'',
      ''a7'', ''b7'', ''c7'', ''d7'', ''e7'', ''f7'', ''g7'', ''h7'',
      ''a6'', ''b6'', ''c6'', ''d6'', ''e6'', ''f6'', ''g6'', ''h6'',
      ''a5'', ''b5'', ''c5'', ''d5'', ''e5'', ''f5'', ''g5'', ''h5'',
      ''a4'', ''b4'', ''c4'', ''d4'', ''e4'', ''f4'', ''g4'', ''h4'',
      ''a3'', ''b3'', ''c3'', ''d3'', ''e3'', ''f3'', ''g3'', ''h3'',
      ''a2'', ''b2'', ''c2'', ''d2'', ''e2'', ''f2'', ''g2'', ''h2'',
      ''a1'', ''b1'', ''c1'', ''d1'', ''e1'', ''f1'', ''g1'', ''h1'']"

fun indexOf :: "string list \<Rightarrow> string \<Rightarrow> int \<Rightarrow> int option" where
  "indexOf [] s i = None"
| "indexOf (x # xs) s i = (if x = s then Some i else indexOf xs s (i + 1))"

text \<open>
  One reading of the two converters: a square of 0..63 is rendered by the table, and a
  string is looked up in it. A text that names no square comes back as the
  value-initialised \<^verbatim>\<open>square\<close>, a8, as a \<^verbatim>\<open>std::map\<close> indexed with \<^verbatim>\<open>operator[]\<close> would give.
  The two absent heuristics are constantly 0.
\<close>

definition tableExternals :: externals where
  "tableExternals =
     \<lparr> squareToString =
         (\<lambda>sq. if 0 \<le> sq \<and> sq < 64 then Inr (SQUARES ! nat sq) else Inl ExternalFailure),
       stringToSquare = (\<lambda>s. case indexOf SQUARES s 0 of Some i \<Rightarrow> Inr i | None \<Rightarrow> Inr 0),
       evaluatePositioning = (\<lambda>game kingPos isWhite. Inr 0),
       evaluateOpenFiles = (\<lambda>game kingPos isWhite. Inr 0) \<rparr>"

text \<open>
  Four positions, each with the answers the engine gives on it. \<^verbatim>\<open>moves\<close> answers the one
  query the evaluation makes, the moves of the piece on the evaluated square: none for the
  hemmed-in king of \<open>pawnOnE3\<close> and for the rook of \<open>noWhiteKing\<close>; on \<open>bareKings\<close> and
  \<open>blackShielded\<close> no evaluation made below reaches the query.
\<close>

definition emptyRow :: "squ list" where
  "emptyRow = [None, None, None, None, None, None, None, None]"

text \<open>Two bare kings, White on e1 and Black on e8, White to move
  (\<^verbatim>\<open>4k3/8/8/8/8/8/8/4K3 w - - 0 1\<close>). Each king attacks the squares next to it.\<close>

definition bareKings :: Chess where
  "bareKings =
     \<lparr> turn = WHITE,
       board =
         [[None, None, None, None, Some (4, KING, BLACK), None, None, None],
          emptyRow, emptyRow, emptyRow, emptyRow, emptyRow, emptyRow,
          [None, None, None, None, Some (60, KING, WHITE), None, None, None]],
       isAttacked =
         (\<lambda>sq attackedBy.
            if attackedBy = WHITE then sq \<in> set [59, 61, 51, 52, 53]
            else sq \<in> set [3, 5, 11, 12, 13]),
       getAttackingPieces =
         (\<lambda>c sq.
            if c = WHITE \<and> sq \<in> set [59, 61, 51, 52, 53] then [Some KING]
            else if c = BLACK \<and> sq \<in> set [3, 5, 11, 12, 13] then [Some KING]
            else []),
       moves = (\<lambda>sq piece. []) \<rparr>"

text \<open>Black to move, the black king on e8 behind its pawns on d7, e7 and f7, the white king
  on e1 (\<^verbatim>\<open>4k3/3ppp2/8/8/8/8/8/4K3 b - - 0 1\<close>).\<close>

definition blackShielded :: Chess where
  "blackShielded =
     \<lparr> turn = BLACK,
       board =
         [[None, None, None, None, Some (4, KING, BLACK), None, None, None],
          [None, None, None, Some (11, PAWN, BLACK), Some (12, PAWN, BLACK),
           Some (13, PAWN, BLACK), None, None],
          emptyRow, emptyRow, emptyRow, emptyRow, emptyRow,
          [None, None, None, None, Some (60, KING, WHITE), None, None, None]],
       isAttacked =
         (\<lambda>sq attackedBy.
            if attackedBy = WHITE then sq \<in> set [59, 61, 51, 52, 53]
            else sq \<in> set [3, 5, 11, 12, 13, 18, 19, 20, 21, 22]),
       getAttackingPieces =
         (\<lambda>c sq.
            if c = WHITE \<and> sq \<in> set [59, 61, 51, 52, 53] then [Some KING]
            else if c = BLACK \<and> sq \<in> set [3, 5, 11, 12, 13] then [Some KING]
            else if c = BLACK \<and> sq \<in> set [18, 19, 21, 22] then [Some PAWN]
            else if c = BLACK \<and> sq = 20 then [Some PAWN, Some PAWN]
            else []),
       moves = (\<lambda>sq piece. []) \<rparr>"

text \<open>White to move, the white king on e1 with every neighbour square held by a white
  piece (queen d1, bishop f1, pawns d2, e2, f2), a black pawn on e3 that attacks d2 and f2,
  the black king on e8 (\<^verbatim>\<open>4k3/8/8/8/8/4p3/3PPP2/3QKB2 w - - 0 1\<close>). The attacks listed are
  Black's; the evaluation of White's king asks for no other.\<close>

definition pawnOnE3 :: Chess where
  "pawnOnE3 =
     \<lparr> turn = WHITE,
       board =
         [[None, None, None, None, Some (4, KING, BLACK), None, None, None],
          emptyRow, emptyRow, emptyRow, emptyRow,
          [None, None, None, None, Some (44, PAWN, BLACK), None, None, None],
          [None, None, None, Some (51, PAWN, WHITE), Some (52, PAWN, WHITE),
           Some (53, PAWN, WHITE), None, None],
          [None, None, None, Some (59, QUEEN, WHITE), Some (60, KING, WHITE),
           Some (61, BISHOP, WHITE), None, None]],
       isAttacked =
         (\<lambda>sq attackedBy.
            attackedBy = BLACK \<and> sq \<in> set [3, 5, 11, 12, 13, 51, 53]),
       getAttackingPieces =
         (\<lambda>c sq.
            if c = BLACK \<and> sq \<in> set [51, 53] then [Some PAWN]
            else if c = BLACK \<and> sq \<in> set [3, 5, 11, 12, 13] then [Some KING]
            else []),
       moves = (\<lambda>sq piece. []) \<rparr>"

text \<open>White to move with no white king on the board: a white rook on a1, a white knight on
  b1, white pawns on a2 and b2, the black king on e8
  (\<^verbatim>\<open>4k3/8/8/8/8/8/PP6/RN6 w - - 0 1\<close>). The attacks listed are Black's, and no move of
  the rook on a1 is legal.\<close>

definition noWhiteKing :: Chess where
  "noWhiteKing =
     \<lparr> turn = WHITE,
       board =
         [[None, None, None, None, Some (4, KING, BLACK), None, None, None],
          emptyRow, emptyRow, emptyRow, emptyRow, emptyRow,
          [Some (48, PAWN, WHITE), Some (49, PAWN, WHITE), None, None, None, None, None, None],
          [Some (56, ROOK, WHITE), Some (57, KNIGHT, WHITE), None, None, None, None, None, None]],
       isAttacked =
         (\<lambda>sq attackedBy. attackedBy = BLACK \<and> sq \<in> set [3, 5, 11, 12, 13]),
       getAttackingPieces =
         (\<lambda>c sq. if c = BLACK \<and> sq \<in> set [3, 5, 11, 12, 13] then [Some KING] else []),
       moves = (\<lambda>sq piece. []) \<rparr>"

section \<open>Square geometry: proofs\<close>

lemma sdiv8_nonneg: "0 \<le> sq \<Longrightarrow> (sq::int) sdiv 8 = sq div 8"
  by (simp add: signed_divide_int_def sgn_if)

lemma smod8_nonneg: "0 \<le> sq \<Longrightarrow> (sq::int) smod 8 = sq mod 8"
  by (simp add: signed_modulo_int_def sgn_if)

lemma getRank_onboard: "0 \<le> sq \<Longrightarrow> sq < 64 \<Longrightarrow> 0 \<le> getRank sq \<and> getRank sq < 8"
  unfolding getRank_def by (simp add: sdiv8_nonneg) arith

lemma getFile_onboard: "0 \<le> sq \<Longrightarrow> 0 \<le> getFile sq \<and> getFile sq < 8"
  by (simp add: getFile_def smod8_nonneg)

lemma square_decompose: "0 \<le> sq \<Longrightarrow> getRank sq * 8 + getFile sq = sq"
  by (simp add: getRank_def getFile_def sdiv8_nonneg smod8_nonneg)

lemma getRank_createSquare:
  "0 \<le> rank \<Longrightarrow> 0 \<le> file \<Longrightarrow> file < 8 \<Longrightarrow> getRank (rank * 8 + file) = rank"
  by (simp add: getRank_def sdiv8_nonneg)

lemma getFile_createSquare:
  "0 \<le> rank \<Longrightarrow> 0 \<le> file \<Longrightarrow> file < 8 \<Longrightarrow> getFile (rank * 8 + file) = file"
  by (simp add: getFile_def smod8_nonneg)

text \<open>
  Claim C7. Square construction fails exactly when the rank or the file lies outside 0..7,
  and on every other pair it returns the square of index \<open>rank * 8 + file\<close>. The failure of
  \<^verbatim>\<open>createSquare\<close> is the empty optional (\<^verbatim>\<open>std::nullopt\<close>), \<open>None\<close> here.
\<close>

theorem createSquare_fails_iff_off_board:
  "(createSquare rank file = None) = (rank < 0 \<or> 7 < rank \<or> file < 0 \<or> 7 < file) \<and>
   (createSquare rank file \<noteq> None \<longrightarrow> createSquare rank file = Some (rank * 8 + file))"
  by (auto simp add: createSquare_def)

theorem createSquare_fails_iff_off_board_witness:
  "createSquare 7 4 \<noteq> None \<and> createSquare 7 4 = Some 60 \<and> createSquare 8 0 = None \<and>
   createSquare 0 (-1) = None"
  using createSquare_fails_iff_off_board [of 7 4] createSquare_fails_iff_off_board [of 8 0]
    createSquare_fails_iff_off_board [of 0 "-1"]
  by simp

text \<open>
  Claim C10. Rank/file decomposition and square construction are mutually inverse: on a
  square of index 0..63, \<^verbatim>\<open>createSquare(getRank(sq), getFile(sq))\<close> is \<open>sq\<close>; on a rank and a
  file in 0..7, \<^verbatim>\<open>getRank\<close> and \<^verbatim>\<open>getFile\<close> of the constructed square give them back.
\<close>

theorem createSquare_getRank_getFile_inverse:
  "(0 \<le> sq \<and> sq \<le> 63 \<longrightarrow> createSquare (getRank sq) (getFile sq) = Some sq) \<and>
   (0 \<le> rank \<and> rank \<le> 7 \<and> 0 \<le> file \<and> file \<le> 7 \<longrightarrow>
      (\<exists>s. createSquare rank file = Some s \<and> getRank s = rank \<and> getFile s = file))"
proof (intro conjI impI)
  assume sq: "0 \<le> sq \<and> sq \<le> 63"
  then have "0 \<le> getRank sq \<and> getRank sq < 8" "0 \<le> getFile sq \<and> getFile sq < 8"
    using getRank_onboard [of sq] getFile_onboard [of sq] by simp_all
  then show "createSquare (getRank sq) (getFile sq) = Some sq"
    using sq by (simp add: createSquare_def square_decompose)
next
  assume rf: "0 \<le> rank \<and> rank \<le> 7 \<and> 0 \<le> file \<and> file \<le> 7"
  then have "createSquare rank file = Some (rank * 8 + file)"
    by (simp add: createSquare_def)
  then show "\<exists>s. createSquare rank file = Some s \<and> getRank s = rank \<and> getFile s = file"
    using rf by (simp add: getRank_createSquare getFile_createSquare)
qed

theorem createSquare_getRank_getFile_inverse_witness:
  "createSquare (getRank 60) (getFile 60) = Some 60 \<and>
   (\<exists>s. createSquare 7 4 = Some s \<and> getRank s = 7 \<and> getFile s = 4)"
  using createSquare_getRank_getFile_inverse [of 60 7 4] by simp

subsection \<open>The neighbours of a square\<close>

text \<open>The board has 64 squares: the enumeration is checked on each of them.\<close>

lemma all_squares_sound:
  "list_all (\<lambda>sq. length (getSurroundingSquares sq) = neighborCount sq \<and>
      distinct (getSurroundingSquares sq) \<and>
      list_all (\<lambda>n. 0 \<le> n \<and> n \<le> 63 \<and> adjacent sq n) (getSurroundingSquares sq)) [0..63]"
  by code_simp

lemma all_squares_complete:
  "list_all (\<lambda>sq. list_all
      (\<lambda>n. \<not> adjacent sq n \<or> List.member (getSurroundingSquares sq) n) [0..63]) [0..63]"
  by code_simp

lemma on_board_upto: "0 \<le> sq \<Longrightarrow> sq \<le> 63 \<Longrightarrow> sq \<in> set [0..63]"
  by simp

lemma neighbors_sound:
  assumes "0 \<le> sq" "sq \<le> 63"
  shows "length (getSurroundingSquares sq) = neighborCount sq"
    and "distinct (getSurroundingSquares sq)"
    and "n \<in> set (getSurroundingSquares sq) \<Longrightarrow> 0 \<le> n \<and> n \<le> 63 \<and> adjacent sq n"
  using all_squares_sound on_board_upto [OF assms]
  by (auto simp only: list_all_iff)

lemma neighbors_complete:
  assumes "0 \<le> sq" "sq \<le> 63" "0 \<le> n" "n \<le> 63" "adjacent sq n"
  shows "n \<in> set (getSurroundingSquares sq)"
  using all_squares_complete on_board_upto [OF assms(1,2)] on_board_upto [OF assms(3,4)] assms(5)
  by (auto simp only: list_all_iff List.member_iff)

lemma surroundingLoop_length:
  "length (surroundingLoop rank file offs acc) \<le> length acc + length offs"
proof (induction offs arbitrary: acc)
  case Nil
  show ?case by simp
next
  case (Cons offset rest)
  show ?case
  proof (cases "createSquare (rank + fst offset) (file + snd offset)")
    case None
    then show ?thesis using Cons.IH [of acc] by simp
  next
    case (Some neighbor)
    then show ?thesis using Cons.IH [of "acc @ [neighbor]"] by simp
  qed
qed

lemma getSurroundingSquares_at_most_8: "length (getSurroundingSquares sq) \<le> 8"
  using surroundingLoop_length [of "getRank sq" "getFile sq" offsets "[]"]
  by (simp add: getSurroundingSquares_def offsets_def)

text \<open>
  Claim C6. On a square of index 0..63 the neighbour enumeration returns exactly the squares
  of the board whose rank and file differ from the square's by at most one (the square
  itself left out), each once and each with rank and file in 0..7: three of them on a
  corner, five on the rim off the corners, eight in the interior.
\<close>

theorem getSurroundingSquares_adjacent_on_board:
  assumes "0 \<le> sq" and "sq \<le> 63"
  shows "set (getSurroundingSquares sq) = {n. 0 \<le> n \<and> n \<le> 63 \<and> adjacent sq n} \<and>
    (\<forall>n \<in> set (getSurroundingSquares sq).
        0 \<le> getRank n \<and> getRank n \<le> 7 \<and> 0 \<le> getFile n \<and> getFile n \<le> 7) \<and>
    distinct (getSurroundingSquares sq) \<and>
    (onEdgeRank sq \<and> onEdgeFile sq \<longrightarrow> length (getSurroundingSquares sq) = 3) \<and>
    (onEdgeRank sq \<noteq> onEdgeFile sq \<longrightarrow> length (getSurroundingSquares sq) = 5) \<and>
    (\<not> onEdgeRank sq \<and> \<not> onEdgeFile sq \<longrightarrow> length (getSurroundingSquares sq) = 8)"
proof -
  have members: "set (getSurroundingSquares sq) = {n. 0 \<le> n \<and> n \<le> 63 \<and> adjacent sq n}"
    using neighbors_sound(3) [OF assms] neighbors_complete [OF assms] by blast
  have on_board: "\<forall>n \<in> set (getSurroundingSquares sq).
      0 \<le> getRank n \<and> getRank n \<le> 7 \<and> 0 \<le> getFile n \<and> getFile n \<le> 7"
  proof
    fix n assume "n \<in> set (getSurroundingSquares sq)"
    then have "0 \<le> n \<and> n \<le> 63" using neighbors_sound(3) [OF assms] by blast
    then show "0 \<le> getRank n \<and> getRank n \<le> 7 \<and> 0 \<le> getFile n \<and> getFile n \<le> 7"
      using getRank_onboard [of n] getFile_onboard [of n] by simp
  qed
  have once: "distinct (getSurroundingSquares sq)"
    by (rule neighbors_sound(2) [OF assms])
  have len: "length (getSurroundingSquares sq) = neighborCount sq"
    by (rule neighbors_sound(1) [OF assms])
  have corner: "onEdgeRank sq \<and> onEdgeFile sq \<longrightarrow> length (getSurroundingSquares sq) = 3"
    by (simp add: len neighborCount_def)
  have rim: "onEdgeRank sq \<noteq> onEdgeFile sq \<longrightarrow> length (getSurroundingSquares sq) = 5"
    by (auto simp add: len neighborCount_def)
  have interior:
    "\<not> onEdgeRank sq \<and> \<not> onEdgeFile sq \<longrightarrow> length (getSurroundingSquares sq) = 8"
    by (simp add: len neighborCount_def)
  from members on_board once corner rim interior show ?thesis by blast
qed

theorem getSurroundingSquares_adjacent_on_board_witness:
  "length (getSurroundingSquares 56) = 3 \<and> length (getSurroundingSquares 60) = 5 \<and>
   length (getSurroundingSquares 27) = 8 \<and>
   set (getSurroundingSquares 56) = {n. 0 \<le> n \<and> n \<le> 63 \<and> adjacent 56 n}"
proof -
  have "onEdgeRank 56 \<and> onEdgeFile 56" "onEdgeRank 60 \<noteq> onEdgeFile 60"
    "\<not> onEdgeRank 27 \<and> \<not> onEdgeFile 27"
    by code_simp+
  then show ?thesis
    using getSurroundingSquares_adjacent_on_board [of 56]
      getSurroundingSquares_adjacent_on_board [of 60]
      getSurroundingSquares_adjacent_on_board [of 27]
    by simp
qed

section \<open>The heuristics: proofs\<close>

lemma bindE_Inr: "bindE (Inr x) f = f x"
  by (simp add: bindE_def)

lemma bindE_Inl: "bindE (Inl e) f = Inl e"
  by (simp add: bindE_def)

lemma bindE_Inr_iff: "(bindE m f = Inr y) = (\<exists>x. m = Inr x \<and> f x = Inr y)"
  by (cases m) (simp_all add: bindE_def)

subsection \<open>The exposed king\<close>

lemma exposedLoop_fails_iff:
  "(exposedLoop game cur opp sqs pen = Inl BadOptionalAccess) =
   (\<exists>sq \<in> set sqs. pieceOnSquare game sq = None)"
  by (induction sqs arbitrary: pen) (auto split: option.splits)

lemma exposedLoop_returns_iff:
  "(\<exists>n. exposedLoop game cur opp sqs pen = Inr n) =
   (\<forall>sq \<in> set sqs. pieceOnSquare game sq \<noteq> None)"
  by (induction sqs arbitrary: pen) (auto split: option.splits)

text \<open>
  Claim C9. The piece lookup of every neighbour square is read with \<^verbatim>\<open>.value()\<close> and no
  test: the exposed-king heuristic fails, by the error of the optional access, exactly when
  some neighbour square of the king holds no piece, and it returns a count exactly when
  every neighbour square holds one.
\<close>

theorem evaluateExposedKing_fails_iff_empty_neighbor:
  "((evaluateExposedKing game kingPos isWhite = Inl BadOptionalAccess) =
      (\<exists>sq \<in> set (getSurroundingSquares kingPos). pieceOnSquare game sq = None)) \<and>
   ((\<exists>n. evaluateExposedKing game kingPos isWhite = Inr n) =
      (\<forall>sq \<in> set (getSurroundingSquares kingPos). pieceOnSquare game sq \<noteq> None))"
  by (simp add: evaluateExposedKing_def exposedLoop_fails_iff exposedLoop_returns_iff)

theorem evaluateExposedKing_fails_iff_empty_neighbor_witness:
  "evaluateExposedKing bareKings 60 True = Inl BadOptionalAccess \<and>
   (\<exists>n. evaluateExposedKing pawnOnE3 60 True = Inr n)"
proof -
  have a: "\<exists>sq \<in> set (getSurroundingSquares 60). pieceOnSquare bareKings sq = None"
    by code_simp
  have b: "\<forall>sq \<in> set (getSurroundingSquares 60). pieceOnSquare pawnOnE3 sq \<noteq> None"
    by code_simp
  show ?thesis
    using evaluateExposedKing_fails_iff_empty_neighbor [of bareKings 60 True]
      evaluateExposedKing_fails_iff_empty_neighbor [of pawnOnE3 60 True] a b
    by blast
qed

text \<open>When the heuristic returns, it returns the count the specification words.\<close>

lemma exposedLoop_value:
  "exposedLoop game cur opp sqs pen = Inr n \<Longrightarrow>
   n = pen + int (length (filter
         (\<lambda>sq. (case pieceOnSquare game sq of None \<Rightarrow> False | Some found \<Rightarrow> snd found \<noteq> cur)
               \<or> isAttacked game sq opp) sqs))"
proof (induction sqs arbitrary: pen)
  case Nil
  then show ?case by simp
next
  case (Cons sq sqs)
  show ?case
  proof (cases "pieceOnSquare game sq")
    case None
    with Cons.prems show ?thesis by simp
  next
    case (Some found)
    let ?pen = "if snd found \<noteq> cur \<or> isAttacked game sq opp then pen + 1 else pen"
    from Cons.prems Some have "exposedLoop game cur opp sqs ?pen = Inr n"
      by (simp add: Let_def)
    from Cons.IH [OF this] Some show ?thesis by simp
  qed
qed

lemma evaluateExposedKing_value:
  assumes "evaluateExposedKing game kingPos isWhite = Inr n"
  shows "n = spec_exposedKing game kingPos isWhite \<and> 0 \<le> n \<and> n \<le> 8"
proof -
  have "n = spec_exposedKing game kingPos isWhite"
    using assms
      exposedLoop_value [of game "if isWhite then WHITE else BLACK"
        "if isWhite then BLACK else WHITE" "getSurroundingSquares kingPos" 0 n]
    by (cases isWhite)
      (simp_all add: evaluateExposedKing_def spec_exposedKing_def spec_exposedSquare_def [abs_def])
  moreover have
    "length (filter (spec_exposedSquare game isWhite) (getSurroundingSquares kingPos)) \<le> 8"
    using getSurroundingSquares_at_most_8 [of kingPos]
      length_filter_le [of "spec_exposedSquare game isWhite" "getSurroundingSquares kingPos"]
    by linarith
  ultimately show ?thesis by (simp add: spec_exposedKing_def)
qed

text \<open>
  Claim C5. The exposed-king heuristic is to return, on every snapshot and king square, the
  number of neighbour squares that hold an enemy piece or are attacked by the opponent. On
  the two bare kings no neighbour of e1 holds a piece or is attacked by Black, so that number
  is 0; the code returns nothing there: the lookup of the empty square d2 throws.
\<close>

theorem evaluateExposedKing_bareKings:
  "evaluateExposedKing bareKings 60 True = Inl BadOptionalAccess \<and>
   spec_exposedKing bareKings 60 True = 0"
  by code_simp

subsection \<open>The pawn shield\<close>

lemma pieceOnSquare_blackShielded:
  "pieceOnSquare blackShielded sq \<noteq> Some (PAWN, WHITE)"
  by (simp add: pieceOnSquare_def blackShielded_def emptyRow_def)

lemma shieldLoop_no_white_pawn:
  "(\<And>sq. pieceOnSquare game sq \<noteq> Some (PAWN, WHITE)) \<Longrightarrow> shieldLoop game sqs n = n"
  by (induction sqs arbitrary: n) simp_all

lemma evaluatePawnShield_blackShielded:
  "evaluatePawnShield ext blackShielded kingPos isWhite = Inr n \<Longrightarrow> n = 0"
  unfolding evaluatePawnShield_def Let_def bindE_Inr_iff
  by (auto simp add: shieldLoop_no_white_pawn [of blackShielded, OF pieceOnSquare_blackShielded]
        simp del: shieldLoop.simps)

text \<open>The texts handed to \<^verbatim>\<open>stringToSquare\<close> for a white king on e1: the character codes of
  \<open>1\<close> and \<open>e\<close>, shifted and printed in decimal, not the squares d2, e2 and f2.\<close>

lemma evaluatePawnShield_strings_e1:
  assumes "squareToString ext 60 = Inr ''e1''"
  shows "evaluatePawnShield ext game 60 True =
           bindE (stringToSquare ext ''50100'') (\<lambda>s1.
           bindE (stringToSquare ext ''50101'') (\<lambda>s2.
           bindE (stringToSquare ext ''50102'') (\<lambda>s3.
           Inr (shieldLoop game [s1, s2, s3] 0))))"
proof -
  have "to_string 50 = ''50''" "to_string 100 = ''100''" "to_string 101 = ''101''"
    "to_string 102 = ''102''"
    by code_simp+
  then show ?thesis
    by (simp add: evaluatePawnShield_def assms bindE_Inr charAt_def del: shieldLoop.simps)
qed

text \<open>
  Claim C2. The pawn shield is to count the pawns of the evaluated side on the three squares
  one rank towards the opponent. For the black king on e8 behind its pawns on d7, e7 and f7
  that count is 3. The code compares every shield square with a white pawn, whatever the
  side, and the board holds none: whatever the two converters answer, it does not return 3,
  and with the table converters it returns 0.
\<close>

theorem evaluatePawnShield_blackShielded_not_3:
  "evaluatePawnShield ext blackShielded 4 False \<noteq> Inr 3 \<and>
   evaluatePawnShield tableExternals blackShielded 4 False = Inr 0 \<and>
   spec_pawnShield blackShielded 4 False = 3"
proof -
  have "evaluatePawnShield ext blackShielded 4 False \<noteq> Inr 3"
    using evaluatePawnShield_blackShielded [of ext 4 False 3] by auto
  moreover have "evaluatePawnShield tableExternals blackShielded 4 False = Inr 0"
    by code_simp
  moreover have "spec_pawnShield blackShielded 4 False = 3"
    by code_simp
  ultimately show ?thesis by blast
qed

subsection \<open>The enemy attacks\<close>

text \<open>The quotient is taken on integers: every piece but the king contributes 0.\<close>

lemma getPieceValue_quotient: "getPieceValue p sdiv 10 = (if p = KING then 20 else 0)"
  by (cases p) (simp_all add: signed_divide_int_def)

text \<open>
  Claim C3. The enemy-attacks heuristic is to add \<open>pieceValue / 10\<close> for every attacker of
  every attacked neighbour square, 0.1 for a pawn. With the black pawn on e3 attacking d2 and
  f2 beside the white king on e1 that sum is 0.2. The code divides the two integers first,
  so the pawn contributes 0 and the heuristic returns 0.
\<close>

theorem evaluateEnemyAttacks_pawnOnE3:
  "evaluateEnemyAttacks pawnOnE3 60 True = Inr 0 \<and>
   spec_enemyAttacks pawnOnE3 60 True = 2 / 10"
  by code_simp

section \<open>The aggregator: proofs\<close>

subsection \<open>The double arithmetic at work\<close>

text \<open>The weight \<^verbatim>\<open>0.1\<close> is the double \<open>0x1.999999999999ap-4\<close>, and three times it is
  \<open>0x1.3333333333334p-2\<close>, not three tenths.\<close>

lemma binary64_tenth: "dconst binary64 (1 / 10) = 3602879701896397 / 2 ^ 55"
  by code_simp

lemma binary64_three_tenths:
  "dmul binary64 (mobilityWeight binary64) 3 = 5404319552844596 / 2 ^ 54"
  by code_simp

lemma binary64_three_tenths_inexact:
  "dmul binary64 (mobilityWeight binary64) 3 \<noteq> 3 / 10"
  by code_simp

lemma binary64_exact_weights:
  "pawnShieldWeight binary64 = 1 \<and> exposedKingWeight binary64 = - (1 / 2) \<and>
   openFilesWeight binary64 = - 1"
  by code_simp

subsection \<open>The search for the king\<close>

lemma kingPositionLoop_no_king:
  "\<not> hasKing rows isWhite \<Longrightarrow> kingPositionLoop rows isWhite kingPosition = kingPosition"
  by (induction rows arbitrary: kingPosition) (auto simp add: hasKing_def)

lemma kingPositionLoop_has_king:
  "hasKing rows isWhite \<Longrightarrow>
   kingPositionLoop rows isWhite kingPosition = kingPositionLoop rows isWhite kingPosition'"
proof (induction rows arbitrary: kingPosition kingPosition')
  case Nil
  then show ?case by (simp add: hasKing_def)
next
  case (Cons row rows)
  show ?case
  proof (cases "kingInRow row isWhite")
    case None
    with Cons.prems have "hasKing rows isWhite" by (simp add: hasKing_def)
    with None Cons.IH show ?thesis by simp
  next
    case (Some s)
    then show ?thesis by simp
  qed
qed

lemma kingPositionLoop_bareKings:
  "kingPositionLoop (board bareKings) (turn bareKings = WHITE) kingPosition0 = 60"
  by (simp add: bareKings_def emptyRow_def)

lemma evaluateKingSafety_no_king:
  assumes "\<not> hasKing (board game) (turn game = WHITE)"
  shows "evaluateKingSafety fp ext game kingPosition0 =
           safetyScore fp ext game kingPosition0 (turn game = WHITE)"
  using kingPositionLoop_no_king [OF assms, of kingPosition0]
  by (simp add: evaluateKingSafety_def)

subsection \<open>The weighted sum\<close>

text \<open>
  Where all six heuristics return, and only there, the aggregator returns a score: the six
  results, each times its weight, added in the order of the statements, all in double
  arithmetic.
\<close>

lemma safetyScore_returns_iff:
  "(safetyScore fp ext game kingPosition isWhite = Inr score) =
     (\<exists>pawnShield exposedKing enemyAttacks kingPositioning mobility openFiles.
        evaluatePawnShield ext game kingPosition isWhite = Inr pawnShield \<and>
        evaluateExposedKing game kingPosition isWhite = Inr exposedKing \<and>
        evaluateEnemyAttacks game kingPosition isWhite = Inr enemyAttacks \<and>
        evaluatePositioning ext game kingPosition isWhite = Inr kingPositioning \<and>
        evaluateKingMobility ext game kingPosition = Inr mobility \<and>
        evaluateOpenFiles ext game kingPosition isWhite = Inr openFiles \<and>
        score =
          dadd fp (dadd fp (dadd fp (dadd fp (dadd fp (dadd fp 0
            (dmul fp (dconst fp 1.0) (of_int pawnShield)))
            (dmul fp (- dconst fp 0.5) (of_int exposedKing)))
            (dmul fp (- dconst fp 0.2) enemyAttacks))
            (dmul fp (- dconst fp 0.8) kingPositioning))
            (dmul fp (dconst fp 0.1) (of_int mobility)))
            (dmul fp (- dconst fp 1.0) openFiles))"
  unfolding safetyScore_def Let_def bindE_Inr_iff
    pawnShieldWeight_def exposedKingWeight_def enemyAttacksWeight_def
    kingPositioningWeight_def mobilityWeight_def openFilesWeight_def
  by (simp add: eq_commute)

lemma safetyScore_empty_square:
  assumes "pieceOnSquare game kingPosition = None"
  shows "\<exists>e. safetyScore fp ext game kingPosition isWhite = Inl e"
proof -
  have mob: "\<exists>e. evaluateKingMobility ext game kingPosition = Inl e"
    using assms
    by (cases "squareToString ext kingPosition")
      (simp_all add: evaluateKingMobility_def bindE_def)
  show ?thesis
  proof (cases "safetyScore fp ext game kingPosition isWhite")
    case (Inl e)
    then show ?thesis by blast
  next
    case (Inr y)
    then have "\<exists>m. evaluateKingMobility ext game kingPosition = Inr m"
      unfolding safetyScore_returns_iff by blast
    with mob show ?thesis by auto
  qed
qed

text \<open>
  Claim C1. \<^verbatim>\<open>evaluateKingSafety\<close> is to invoke each of the six heuristics once and to return
  their weighted sum, on every snapshot. On the two bare kings, White to move, it returns no
  sum, whatever the functions outside main.cpp answer, whatever the arithmetic and whatever
  \<open>kingPosition\<close> held: the king is found on e1, and the evaluation ends with the exception
  of the pawn shield if a converter throws there, and otherwise with the error of the
  optional access that the exposed-king heuristic takes on the empty square d2.
\<close>

theorem evaluateKingSafety_bareKings_throws:
  "evaluateKingSafety fp ext bareKings kingPosition0 =
     (case evaluatePawnShield ext bareKings 60 True of
        Inl e \<Rightarrow> Inl e
      | Inr pawnShield \<Rightarrow> Inl BadOptionalAccess)"
proof -
  have ek: "evaluateExposedKing bareKings 60 True = Inl BadOptionalAccess"
    by code_simp
  have t: "turn bareKings = WHITE"
    by (simp add: bareKings_def)
  show ?thesis
    using kingPositionLoop_bareKings [of kingPosition0]
    by (cases "evaluatePawnShield ext bareKings 60 True")
      (simp_all add: evaluateKingSafety_def safetyScore_def t ek bindE_Inl bindE_Inr)
qed

text \<open>
  Claim C4. On a snapshot on which the evaluated side has no king the evaluation is to fail
  with KingNotFound. The code has no such failure and no test for the king: on the position
  without a white king the search assigns nothing, and the evaluation is that of the six
  weighted heuristics at whatever \<open>kingPosition\<close> held, for every such content, every
  answer of the functions outside main.cpp and every arithmetic.
\<close>

theorem evaluateKingSafety_noWhiteKing_unchecked:
  "\<not> hasKing (board noWhiteKing) (turn noWhiteKing = WHITE) \<and>
   evaluateKingSafety fp ext noWhiteKing kingPosition0 =
     safetyScore fp ext noWhiteKing kingPosition0 True"
proof -
  have h: "\<not> hasKing (board noWhiteKing) (turn noWhiteKing = WHITE)"
    by code_simp
  have w: "(turn noWhiteKing = WHITE) = True"
    by code_simp
  from h w evaluateKingSafety_no_king [OF h, of fp ext kingPosition0] show ?thesis
    by simp
qed

end
